theory Spec2Isabelle
  imports Main
begin

section \<open>Shared collaborators: the HTTP client and what it answers\<close>

text \<open>
  Every asynchronous operation of the application awaits one request of the pre-configured
  HTTP client (\<^verbatim>\<open>api\<close>). The client is an external collaborator, so the model takes
  the way the request settles as an argument: the promise either rejects with a failure
  or resolves with a response whose body (\<^verbatim>\<open>response.data\<close>) carries a
  \<^verbatim>\<open>status\<close> flag and a \<^verbatim>\<open>data\<close> field.
\<close>

datatype failure =
    NetworkError
  | HttpError nat "string option" \<comment> \<open>HTTP status, \<^verbatim>\<open>error.response.data.message\<close>\<close>
  | Thrown string \<comment> \<open>any other exception, by its message\<close>

text \<open>
  \<open>ResponseData st d\<close>: \<open>st\<close> is the truthiness of \<^verbatim>\<open>response.data.status\<close>,
  \<open>d\<close> is \<^verbatim>\<open>response.data.data\<close> (\<open>None\<close> when the field is undefined).
\<close>

datatype 'a response_data = ResponseData bool "'a option"

datatype 'a api_outcome = Rejects failure | Resolves "'a response_data"

datatype http_method = GET | POST

datatype image_file = File string

datatype form_value = Text string | Blob image_file

datatype payload =
    NoBody
  | Json "(string \<times> string) list"
  | Multipart "(string \<times> form_value) list"

datatype request = Request http_method string payload

section \<open>The auth context\<close>

datatype role = reader | creator | admin

record user =
  user_id :: string
  name :: string
  email :: string
  role :: role
  profileImage :: "string option"
  bio :: "string option"
  isVerified :: bool

text \<open>\<open>LoginData accessToken user\<close>: the \<^verbatim>\<open>data\<close> field of the login response.\<close>

datatype login_data = LoginData string user

record cookie =
  cookie_value :: string
  cookie_expires :: "nat option" \<comment> \<open>days; \<open>None\<close> for a cookie stored without expiry\<close>

text \<open>
  What the operations do, in the order they do it: every cookie write, state setter,
  request and console message is appended to the session's effect log.
\<close>

datatype effect =
    CookieSet string string nat
  | CookieRemove string
  | SetUser "user option"
  | SetIsLoading bool
  | Sent request
  | ConsoleError string failure

record auth_state =
  user :: "user option"
  isLoading :: bool
  cookies :: "string \<rightharpoonup> cookie"
  effects :: "effect list"

text \<open>The provider's \<^verbatim>\<open>useState\<close> initial values, over whatever the browser has persisted.\<close>

definition AuthProvider_initial :: "(string \<rightharpoonup> cookie) \<Rightarrow> auth_state" where
  "AuthProvider_initial jar = \<lparr>user = None, isLoading = True, cookies = jar, effects = []\<rparr>"

definition Cookies_get :: "string \<Rightarrow> auth_state \<Rightarrow> string option" where
  "Cookies_get n s = map_option cookie_value (cookies s n)"

definition Cookies_set :: "string \<Rightarrow> string \<Rightarrow> nat \<Rightarrow> auth_state \<Rightarrow> auth_state" where
  "Cookies_set n v days s =
     s\<lparr>cookies := (cookies s)(n \<mapsto> \<lparr>cookie_value = v, cookie_expires = Some days\<rparr>),
       effects := effects s @ [CookieSet n v days]\<rparr>"

definition Cookies_remove :: "string \<Rightarrow> auth_state \<Rightarrow> auth_state" where
  "Cookies_remove n s = s\<lparr>cookies := (cookies s)(n := None), effects := effects s @ [CookieRemove n]\<rparr>"

definition setUser :: "user option \<Rightarrow> auth_state \<Rightarrow> auth_state" where
  "setUser u s = s\<lparr>user := u, effects := effects s @ [SetUser u]\<rparr>"

definition setIsLoading :: "bool \<Rightarrow> auth_state \<Rightarrow> auth_state" where
  "setIsLoading b s = s\<lparr>isLoading := b, effects := effects s @ [SetIsLoading b]\<rparr>"

definition api_send :: "request \<Rightarrow> auth_state \<Rightarrow> auth_state" where
  "api_send r s = s\<lparr>effects := effects s @ [Sent r]\<rparr>"

definition console_error :: "string \<Rightarrow> failure \<Rightarrow> auth_state \<Rightarrow> auth_state" where
  "console_error msg e s = s\<lparr>effects := effects s @ [ConsoleError msg e]\<rparr>"

text \<open>JavaScript truthiness of a string that may be undefined: \<^verbatim>\<open>!token\<close> is \<open>\<not> truthy token\<close>.\<close>

fun truthy :: "string option \<Rightarrow> bool" where
  "truthy None = False"
| "truthy (Some v) = (v \<noteq> [])"

text \<open>The requests among the effects, in the order they were sent.\<close>

fun requests_of :: "effect list \<Rightarrow> request list" where
  "requests_of [] = []"
| "requests_of (Sent r # es) = r # requests_of es"
| "requests_of (_ # es) = requests_of es"

text \<open>
  An asynchronous operation returns how its promise settles (\<open>Inl\<close>: rejected with the
  failure, \<open>Inr ()\<close>: resolved) together with the session it leaves behind.

  \<^verbatim>\<open>refreshUser\<close>: the early return sits inside the \<^verbatim>\<open>try\<close>, so the
  \<^verbatim>\<open>finally\<close> block clears the loading flag a second time. The \<^verbatim>\<open>catch\<close>
  block logs and removes both cookies; it does not call \<^verbatim>\<open>setUser\<close>.
\<close>

definition refreshUser :: "user api_outcome \<Rightarrow> auth_state \<Rightarrow> (failure + unit) \<times> auth_state" where
  "refreshUser out s =
     (if \<not> truthy (Cookies_get ''accessToken'' s)
      then (Inr (), setIsLoading False (setIsLoading False s))
      else
        let s1 = api_send (Request GET ''/users/me'' NoBody) s in
        (case out of
           Resolves (ResponseData st d) \<Rightarrow>
             (Inr (), setIsLoading False (if st then setUser d s1 else s1))
         | Rejects e \<Rightarrow>
             (Inr (), setIsLoading False
                (Cookies_remove ''refreshToken''
                  (Cookies_remove ''accessToken''
                    (console_error ''Failed to fetch user:'' e s1))))))"

text \<open>
  \<^verbatim>\<open>login\<close> has no \<^verbatim>\<open>try\<close>: a rejected request rejects the call. Destructuring an
  undefined \<^verbatim>\<open>response.data.data\<close> throws a TypeError, which rejects the call too.
\<close>

definition login ::
  "string \<Rightarrow> string \<Rightarrow> login_data api_outcome \<Rightarrow> auth_state \<Rightarrow> (failure + unit) \<times> auth_state" where
  "login email_in password out s =
     (let s1 = api_send (Request POST ''/auth/login''
                  (Json [(''email'', email_in), (''password'', password)])) s in
      case out of
        Rejects e \<Rightarrow> (Inl e, s1)
      | Resolves (ResponseData st d) \<Rightarrow>
          if st then
            (case d of
               None \<Rightarrow> (Inl (Thrown ''TypeError''), s1)
             | Some (LoginData accessToken userData) \<Rightarrow>
                 (Inr (), setUser (Some userData) (Cookies_set ''accessToken'' accessToken 7 s1)))
          else (Inr (), s1))"

definition register ::
  "string \<Rightarrow> string \<Rightarrow> string \<Rightarrow> user api_outcome \<Rightarrow> auth_state \<Rightarrow> (failure + unit) \<times> auth_state" where
  "register name_in email_in password out s =
     (let s1 = api_send (Request POST ''/auth/register''
                  (Json [(''name'', name_in), (''email'', email_in), (''password'', password)])) s in
      case out of
        Rejects e \<Rightarrow> (Inl e, s1)
      | Resolves (ResponseData st d) \<Rightarrow>
          (Inr (), if st then setUser d s1 else s1))"

text \<open>
  \<^verbatim>\<open>logout\<close> is synchronous: it returns once the request has been handed to the
  client. What the request does later reaches only the empty \<^verbatim>\<open>catch\<close> handler.
\<close>

definition logout :: "auth_state \<Rightarrow> auth_state" where
  "logout s =
     api_send (Request POST ''/auth/logout'' NoBody)
       (setUser None (Cookies_remove ''refreshToken'' (Cookies_remove ''accessToken'' s)))"

fun logout_notification_settled :: "unit api_outcome \<Rightarrow> auth_state \<Rightarrow> (failure + unit) \<times> auth_state" where
  "logout_notification_settled (Resolves _) s = (Inr (), s)"
| "logout_notification_settled (Rejects _) s = (Inr (), s)"

subsection \<open>Sequences of auth operations\<close>

text \<open>
  A session's history is a list of calls, each with the way its request settles. Every
  call runs to completion before the next one starts; a call that sends no request
  ignores the outcome it is given.
\<close>

datatype auth_op =
    RefreshUser "user api_outcome"
  | Login string string "login_data api_outcome"
  | Register string string string "user api_outcome"
  | Logout

fun step :: "auth_op \<Rightarrow> auth_state \<Rightarrow> auth_state" where
  "step (RefreshUser out) s = snd (refreshUser out s)"
| "step (Login e p out) s = snd (login e p out s)"
| "step (Register n e p out) s = snd (register n e p out s)"
| "step Logout s = logout s"

definition run_ops :: "auth_op list \<Rightarrow> auth_state \<Rightarrow> auth_state" where
  "run_ops ops s = fold step ops s"



section \<open>The content-creation page\<close>

record analysis =
  wordCount :: nat
  readingTime :: nat
  suggestedCategory :: string
  autoTags :: "string list"

datatype content_status = draft | published

fun status_string :: "content_status \<Rightarrow> string" where
  "status_string draft = ''draft''"
| "status_string published = ''published''"

text \<open>
  The values the form library holds for the fields of \<^verbatim>\<open>CreateContentFormData\<close>. A field
  nobody has written yet is undefined (\<open>None\<close>). Once the form is mounted, the two
  registered inputs (\<^verbatim>\<open>title\<close>, \<^verbatim>\<open>body\<close>) hold the empty string,
  \<^verbatim>\<open>tags\<close> and \<^verbatim>\<open>featuredImage\<close> stay undefined until their change handlers
  set them, and \<^verbatim>\<open>status\<close> has its default.
\<close>

record CreateContentFormData =
  title :: "string option"
  body :: "string option"
  tags :: "string list option"
  featuredImage :: "image_file option"
  status :: content_status

datatype page_effect =
    SetValueStatus content_status
  | SetAiAnalysis "analysis option"
  | SetIsAnalyzing bool
  | Toast string string bool \<comment> \<open>title, description, destructive variant\<close>
  | Navigate string
  | PageSent request
  | PageConsoleError string failure
  | ValidationErrors

record page_state =
  aiAnalysis :: "analysis option"
  isAnalyzing :: bool
  form_values :: CreateContentFormData
  isSubmitting :: bool
  page_effects :: "page_effect list"

definition CreateContent_initial :: page_state where
  "CreateContent_initial =
     \<lparr>aiAnalysis = None, isAnalyzing = False,
      form_values = \<lparr>title = Some [], body = Some [], tags = None, featuredImage = None,
                     status = draft\<rparr>,
      isSubmitting = False, page_effects = []\<rparr>"

definition watchedBody :: "page_state \<Rightarrow> string option" where
  "watchedBody s = body (form_values s)"

definition setAiAnalysis :: "analysis option \<Rightarrow> page_state \<Rightarrow> page_state" where
  "setAiAnalysis a s = s\<lparr>aiAnalysis := a, page_effects := page_effects s @ [SetAiAnalysis a]\<rparr>"

definition setIsAnalyzing :: "bool \<Rightarrow> page_state \<Rightarrow> page_state" where
  "setIsAnalyzing b s = s\<lparr>isAnalyzing := b, page_effects := page_effects s @ [SetIsAnalyzing b]\<rparr>"

definition setValue_status :: "content_status \<Rightarrow> page_state \<Rightarrow> page_state" where
  "setValue_status st s =
     s\<lparr>form_values := (form_values s)\<lparr>status := st\<rparr>,
       page_effects := page_effects s @ [SetValueStatus st]\<rparr>"

definition toast :: "string \<Rightarrow> string \<Rightarrow> bool \<Rightarrow> page_state \<Rightarrow> page_state" where
  "toast t d destructive s = s\<lparr>page_effects := page_effects s @ [Toast t d destructive]\<rparr>"

definition navigate :: "string \<Rightarrow> page_state \<Rightarrow> page_state" where
  "navigate path s = s\<lparr>page_effects := page_effects s @ [Navigate path]\<rparr>"

definition page_send :: "request \<Rightarrow> page_state \<Rightarrow> page_state" where
  "page_send r s = s\<lparr>page_effects := page_effects s @ [PageSent r]\<rparr>"

definition page_console_error :: "string \<Rightarrow> failure \<Rightarrow> page_state \<Rightarrow> page_state" where
  "page_console_error msg e s = s\<lparr>page_effects := page_effects s @ [PageConsoleError msg e]\<rparr>"

fun page_requests :: "page_effect list \<Rightarrow> request list" where
  "page_requests [] = []"
| "page_requests (PageSent r # es) = r # page_requests es"
| "page_requests (_ # es) = page_requests es"

subsection \<open>AI analysis\<close>

text \<open>Up to the \<^verbatim>\<open>await\<close>: the flag is raised and the request is handed to the client.\<close>

definition analyzeContent_send :: "string \<Rightarrow> page_state \<Rightarrow> page_state" where
  "analyzeContent_send b s =
     page_send (Request POST ''/content/analyze'' (Json [(''body'', b)])) (setIsAnalyzing True s)"

text \<open>After the \<^verbatim>\<open>await\<close>: the \<^verbatim>\<open>try\<close> body or the \<^verbatim>\<open>catch\<close>, then the \<^verbatim>\<open>finally\<close>.\<close>

definition analyzeContent_settle :: "analysis api_outcome \<Rightarrow> page_state \<Rightarrow> page_state" where
  "analyzeContent_settle out s =
     setIsAnalyzing False
       (case out of
          Resolves (ResponseData st d) \<Rightarrow>
            if st then
              toast ''AI Analysis Complete'' ''Content analyzed successfully with AI insights.'' False
                (setAiAnalysis d s)
            else s
        | Rejects e \<Rightarrow> page_console_error ''Analysis failed:'' e s)"

text \<open>
  \<^verbatim>\<open>if (!watchedBody || watchedBody.length < 10) return;\<close> The function itself does not
  look at \<^verbatim>\<open>isAnalyzing\<close>. Its \<^verbatim>\<open>catch\<close> swallows every failure, so it always
  resolves.
\<close>

definition analyzeContent :: "analysis api_outcome \<Rightarrow> page_state \<Rightarrow> (failure + unit) \<times> page_state" where
  "analyzeContent out s =
     (case watchedBody s of
        None \<Rightarrow> (Inr (), s)
      | Some b \<Rightarrow>
          if b = [] \<or> length b < 10 then (Inr (), s)
          else (Inr (), analyzeContent_settle out (analyzeContent_send b s)))"

text \<open>
  The control that triggers the analysis is rendered with
  \<^verbatim>\<open>disabled={isAnalyzing || !watchedBody}\<close>; a disabled button delivers no click.
\<close>

definition AI_Analysis_disabled :: "page_state \<Rightarrow> bool" where
  "AI_Analysis_disabled s = (isAnalyzing s \<or> \<not> truthy (watchedBody s))"

definition click_AI_Analysis :: "analysis api_outcome \<Rightarrow> page_state \<Rightarrow> page_state" where
  "click_AI_Analysis out s =
     (if AI_Analysis_disabled s then s else snd (analyzeContent out s))"

subsection \<open>Primary submission\<close>

function string_of_nat :: "nat \<Rightarrow> string" where
  "string_of_nat n =
     (if n < 10 then [''0123456789'' ! n]
      else string_of_nat (n div 10) @ [''0123456789'' ! (n mod 10)])"
  by pat_completeness auto
termination
  by (relation "measure id") auto

declare string_of_nat.simps [simp del]

text \<open>What \<^verbatim>\<open>FormData.append\<close> stores for a text field that may be undefined.\<close>

fun js_string :: "string option \<Rightarrow> string" where
  "js_string None = ''undefined''"
| "js_string (Some v) = v"

definition tag_entries :: "string list \<Rightarrow> (string \<times> form_value) list" where
  "tag_entries ts =
     map (\<lambda>(index, tag). (''tags['' @ string_of_nat index @ '']'', Text tag)) (enumerate 0 ts)"

definition mutationFn_formData :: "CreateContentFormData \<Rightarrow> (string \<times> form_value) list" where
  "mutationFn_formData d =
     [(''title'', Text (js_string (title d))),
      (''body'', Text (js_string (body d))),
      (''status'', Text (status_string (status d)))]
     @ (case tags d of None \<Rightarrow> [] | Some ts \<Rightarrow> tag_entries ts)
     @ (case featuredImage d of None \<Rightarrow> [] | Some f \<Rightarrow> [(''featuredImage'', Blob f)])"

text \<open>\<^verbatim>\<open>error.response?.data?.message || "Something went wrong."\<close>\<close>

fun error_description :: "failure \<Rightarrow> string" where
  "error_description (HttpError _ (Some m)) = (if m = [] then ''Something went wrong.'' else m)"
| "error_description _ = ''Something went wrong.''"

definition createContentMutation_mutate ::
  "CreateContentFormData \<Rightarrow> unit api_outcome \<Rightarrow> page_state \<Rightarrow> page_state" where
  "createContentMutation_mutate d out s =
     (let s1 = page_send (Request POST ''/content'' (Multipart (mutationFn_formData d))) s in
      case out of
        Resolves _ \<Rightarrow>
          navigate ''/''
            (toast ''Content created!'' ''Your content has been created successfully.'' False s1)
      | Rejects e \<Rightarrow> toast ''Failed to create content'' (error_description e) True s1)"

definition onSubmit :: "CreateContentFormData \<Rightarrow> unit api_outcome \<Rightarrow> page_state \<Rightarrow> page_state" where
  "onSubmit d out s = createContentMutation_mutate d out s"

text \<open>
  Modelled from the spec: \<^verbatim>\<open>createContentSchema\<close> (module \<^verbatim>\<open>@/lib/schemas\<close>) is not
  among the sources; the spec calls the validation rules an external schema collaborator.
  It is the parameter \<open>resolver\<close>, the schema's verdict on the form values; values that
  pass reach \<^verbatim>\<open>onSubmit\<close> as they are. The form library raises \<^verbatim>\<open>isSubmitting\<close>
  for the duration of the handler.
\<close>

definition handleSubmit ::
  "(CreateContentFormData \<Rightarrow> bool) \<Rightarrow> unit api_outcome \<Rightarrow> page_state \<Rightarrow> page_state" where
  "handleSubmit resolver out s =
     (let s1 = s\<lparr>isSubmitting := True\<rparr>;
          s2 = (if resolver (form_values s1) then onSubmit (form_values s1) out s1
                else s1\<lparr>page_effects := page_effects s1 @ [ValidationErrors]\<rparr>)
      in s2\<lparr>isSubmitting := False\<rparr>)"

text \<open>
  Both buttons are \<^verbatim>\<open>type="submit"\<close> with \<^verbatim>\<open>disabled={isSubmitting}\<close>: the click
  handler runs first, then the form's submit event reaches \<^verbatim>\<open>handleSubmit(onSubmit)\<close>.
\<close>

definition click_Publish ::
  "(CreateContentFormData \<Rightarrow> bool) \<Rightarrow> unit api_outcome \<Rightarrow> page_state \<Rightarrow> page_state" where
  "click_Publish resolver out s =
     (if isSubmitting s then s else handleSubmit resolver out (setValue_status published s))"

definition click_Save_as_Draft ::
  "(CreateContentFormData \<Rightarrow> bool) \<Rightarrow> unit api_outcome \<Rightarrow> page_state \<Rightarrow> page_state" where
  "click_Save_as_Draft resolver out s =
     (if isSubmitting s then s else handleSubmit resolver out (setValue_status draft s))"

text \<open>\<^verbatim>\<open>FormData.getAll\<close>, to read a field of a captured payload.\<close>

definition FormData_getAll :: "string \<Rightarrow> (string \<times> form_value) list \<Rightarrow> form_value list" where
  "FormData_getAll k fd = map snd (filter (\<lambda>entry. fst entry = k) fd)"

section \<open>Concrete sessions and pages\<close>

definition alice :: user where
  "alice = \<lparr>user_id = ''u1'', name = ''Alice'', email = ''a@b.com'', role = reader,
            profileImage = None, bio = None, isVerified = False\<rparr>"

definition stored_tokens :: "string \<rightharpoonup> cookie" where
  "stored_tokens =
     [''accessToken'' \<mapsto> \<lparr>cookie_value = ''tok'', cookie_expires = Some 7\<rparr>,
      ''refreshToken'' \<mapsto> \<lparr>cookie_value = ''ref'', cookie_expires = None\<rparr>]"

definition session_with_token :: auth_state where
  "session_with_token = AuthProvider_initial stored_tokens"

text \<open>Mounted on an empty cookie jar, then registered: User is present, no cookie exists.\<close>

definition registered_session :: auth_state where
  "registered_session =
     snd (register ''Alice'' ''a@b.com'' ''pw'' (Resolves (ResponseData True (Some alice)))
            (snd (refreshUser (Rejects NetworkError) (AuthProvider_initial Map.empty))))"

definition page_with_body :: "string \<Rightarrow> page_state" where
  "page_with_body b =
     CreateContent_initial
       \<lparr>form_values := (form_values CreateContent_initial)\<lparr>title := Some ''Title'', body := Some b\<rparr>\<rparr>"

definition has_title_and_body :: "CreateContentFormData \<Rightarrow> bool" where
  "has_title_and_body d = (truthy (title d) \<and> truthy (body d))"

definition insights :: analysis where
  "insights = \<lparr>wordCount = 2, readingTime = 1, suggestedCategory = ''misc'', autoTags = [''hello'']\<rparr>"

section \<open>Elementary facts about the session primitives\<close>

lemma requests_of_append: "requests_of (xs @ ys) = requests_of xs @ requests_of ys"
  by (induction xs rule: requests_of.induct) simp_all

lemmas prim_defs =
  Cookies_get_def Cookies_set_def Cookies_remove_def setUser_def setIsLoading_def
  api_send_def console_error_def

section \<open>login\<close>

text \<open>
  Claim C5. A login whose request resolves with a truthy status flag and the login data
  stores the returned access token in the \<^verbatim>\<open>accessToken\<close> cookie with an expiry of
  7 days and replaces User with the returned record; the call resolves.
\<close>

theorem login_success_persists_token_and_user:
  "fst (login e p (Resolves (ResponseData True (Some (LoginData tok u)))) s) = Inr ()
   \<and> cookies (snd (login e p (Resolves (ResponseData True (Some (LoginData tok u)))) s)) ''accessToken''
       = Some \<lparr>cookie_value = tok, cookie_expires = Some 7\<rparr>
   \<and> Cookies_get ''accessToken'' (snd (login e p (Resolves (ResponseData True (Some (LoginData tok u)))) s))
       = Some tok
   \<and> user (snd (login e p (Resolves (ResponseData True (Some (LoginData tok u)))) s)) = Some u"
  by (simp add: login_def prim_defs)

text \<open>
  Claim C6. A login whose request rejects rejects with the same failure; User, the
  cookies and the loading flag are as before, and the only effect is the request itself
  (no cookie is written).
\<close>

theorem login_rejection_propagates:
  "fst (login e p (Rejects f) s) = Inl f
   \<and> user (snd (login e p (Rejects f) s)) = user s
   \<and> cookies (snd (login e p (Rejects f) s)) = cookies s
   \<and> isLoading (snd (login e p (Rejects f) s)) = isLoading s
   \<and> effects (snd (login e p (Rejects f) s))
       = effects s @ [Sent (Request POST ''/auth/login'' (Json [(''email'', e), (''password'', p)]))]"
  by (simp add: login_def prim_defs)

text \<open>
  Claim C10. A login whose request resolves with a falsy status flag resolves, writes no
  cookie and leaves User as it was; its only effect is the request. The outcome differs
  from the rejection path (which rejects) and from the success path (which writes the
  cookie and User).
\<close>

theorem login_falsy_status_is_silent:
  "fst (login e p (Resolves (ResponseData False d)) s) = Inr ()
   \<and> user (snd (login e p (Resolves (ResponseData False d)) s)) = user s
   \<and> cookies (snd (login e p (Resolves (ResponseData False d)) s)) = cookies s
   \<and> effects (snd (login e p (Resolves (ResponseData False d)) s))
       = effects s @ [Sent (Request POST ''/auth/login'' (Json [(''email'', e), (''password'', p)]))]
   \<and> fst (login e p (Resolves (ResponseData False d)) s) \<noteq> fst (login e p (Rejects f) s)
   \<and> effects (snd (login e p (Resolves (ResponseData False d)) s))
       \<noteq> effects (snd (login e p (Resolves (ResponseData True (Some (LoginData tok u)))) s))"
  by (simp add: login_def prim_defs)

section \<open>register\<close>

text \<open>
  Claim C8. A registration whose request resolves with a truthy status flag sets User from
  the response's data field and leaves the cookie jar as it was: the effects are the
  request and the User update, with no cookie write between them.
\<close>

theorem register_success_sets_user_only:
  "fst (register n e p (Resolves (ResponseData True d)) s) = Inr ()
   \<and> user (snd (register n e p (Resolves (ResponseData True d)) s)) = d
   \<and> cookies (snd (register n e p (Resolves (ResponseData True d)) s)) = cookies s
   \<and> effects (snd (register n e p (Resolves (ResponseData True d)) s))
       = effects s @ [Sent (Request POST ''/auth/register''
                        (Json [(''name'', n), (''email'', e), (''password'', p)])), SetUser d]"
  by (simp add: register_def prim_defs)

section \<open>logout\<close>

text \<open>
  Claim C7. From any session, logout removes the \<^verbatim>\<open>accessToken\<close> and
  \<^verbatim>\<open>refreshToken\<close> cookies and sets User to absent, in that order, before it sends the
  notification; however the notification settles afterwards, nothing is raised and the
  session stays as logout left it.
\<close>

theorem logout_clears_session_first:
  "cookies (logout s) ''accessToken'' = None
   \<and> cookies (logout s) ''refreshToken'' = None
   \<and> user (logout s) = None
   \<and> effects (logout s)
       = effects s @ [CookieRemove ''accessToken'', CookieRemove ''refreshToken'', SetUser None,
                      Sent (Request POST ''/auth/logout'' NoBody)]
   \<and> logout_notification_settled out (logout s) = (Inr (), logout s)"
  by (cases out) (simp_all add: logout_def prim_defs)

section \<open>refreshUser\<close>

text \<open>
  Claim C9 fails as stated: after a successful registration on an empty cookie jar no
  \<^verbatim>\<open>accessToken\<close> cookie is persisted and User is present; refreshUser returns early
  there and User is still present afterwards.
\<close>

theorem refreshUser_without_token_keeps_present_user:
  "cookies registered_session ''accessToken'' = None
   \<and> user registered_session = Some alice
   \<and> fst (refreshUser (Rejects NetworkError) registered_session) = Inr ()
   \<and> user (snd (refreshUser (Rejects NetworkError) registered_session)) = Some alice"
  by (simp add: registered_session_def refreshUser_def register_def prim_defs
        AuthProvider_initial_def)

text \<open>
  Claim C9, amended. When no \<^verbatim>\<open>accessToken\<close> cookie is persisted, refreshUser resolves,
  clears the loading flag, leaves User as it was (an absent User stays absent, a present
  User stays present), sends no request and leaves the cookies alone.
\<close>

theorem refreshUser_without_token:
  "cookies s ''accessToken'' = None \<Longrightarrow>
   fst (refreshUser out s) = Inr ()
   \<and> isLoading (snd (refreshUser out s)) = False
   \<and> user (snd (refreshUser out s)) = user s
   \<and> requests_of (effects (snd (refreshUser out s))) = requests_of (effects s)
   \<and> cookies (snd (refreshUser out s)) = cookies s"
  by (simp add: refreshUser_def prim_defs requests_of_append)

text \<open>
  On mount with an empty cookie jar: loading is false, User is absent, no request. After
  a registration: loading is false, User is still the registered one, no further request.
\<close>

theorem refreshUser_without_token_witness:
  "cookies (AuthProvider_initial Map.empty) ''accessToken'' = None
   \<and> fst (refreshUser (Rejects NetworkError) (AuthProvider_initial Map.empty)) = Inr ()
   \<and> isLoading (snd (refreshUser (Rejects NetworkError) (AuthProvider_initial Map.empty))) = False
   \<and> user (snd (refreshUser (Rejects NetworkError) (AuthProvider_initial Map.empty))) = None
   \<and> requests_of (effects (snd (refreshUser (Rejects NetworkError) (AuthProvider_initial Map.empty)))) = []
   \<and> cookies registered_session ''accessToken'' = None
   \<and> fst (refreshUser (Resolves (ResponseData True None)) registered_session) = Inr ()
   \<and> isLoading (snd (refreshUser (Resolves (ResponseData True None)) registered_session)) = False
   \<and> user (snd (refreshUser (Resolves (ResponseData True None)) registered_session)) = Some alice
   \<and> requests_of (effects (snd (refreshUser (Resolves (ResponseData True None)) registered_session)))
       = [Request POST ''/auth/register''
            (Json [(''name'', ''Alice''), (''email'', ''a@b.com''), (''password'', ''pw'')])]"
proof -
  have mount: "cookies (AuthProvider_initial Map.empty) ''accessToken'' = None"
    "user (AuthProvider_initial Map.empty) = None"
    "effects (AuthProvider_initial Map.empty) = []"
    by (simp_all add: AuthProvider_initial_def)
  have reg: "cookies registered_session ''accessToken'' = None"
    "user registered_session = Some alice"
    "requests_of (effects registered_session)
       = [Request POST ''/auth/register''
            (Json [(''name'', ''Alice''), (''email'', ''a@b.com''), (''password'', ''pw'')])]"
    by (simp_all add: registered_session_def refreshUser_def register_def prim_defs
          AuthProvider_initial_def)
  show ?thesis
    using mount reg
      refreshUser_without_token [OF mount(1), of "Rejects NetworkError"]
      refreshUser_without_token [OF reg(1), of "Resolves (ResponseData True None)"]
    by simp
qed

text \<open>Without a truthy token no request is sent, so the outcome plays no part.\<close>

lemma refreshUser_without_token_ignores_outcome:
  "\<not> truthy (Cookies_get ''accessToken'' s) \<Longrightarrow> refreshUser out s = refreshUser out' s"
  by (simp add: refreshUser_def)

text \<open>
  Claim C1 fails as stated: with a token persisted, a response whose status flag is falsy
  resolves normally, so the \<^verbatim>\<open>catch\<close> block never runs and both cookies stay.
\<close>

theorem refreshUser_falsy_status_keeps_cookies:
  "truthy (Cookies_get ''accessToken'' session_with_token)
   \<and> cookies (snd (refreshUser (Resolves (ResponseData False None)) session_with_token)) ''accessToken''
       = Some \<lparr>cookie_value = ''tok'', cookie_expires = Some 7\<rparr>
   \<and> cookies (snd (refreshUser (Resolves (ResponseData False None)) session_with_token)) ''refreshToken''
       = Some \<lparr>cookie_value = ''ref'', cookie_expires = None\<rparr>"
  by (simp add: refreshUser_def Let_def prim_defs session_with_token_def
        AuthProvider_initial_def stored_tokens_def)

text \<open>
  The \<^verbatim>\<open>catch\<close> block does not call \<^verbatim>\<open>setUser\<close> either: a User that was present
  before a rejected refresh is still present after it.
\<close>

lemma refreshUser_rejection_keeps_user:
  "user (snd (refreshUser (Rejects f) s)) = user s"
  by (simp add: refreshUser_def Let_def prim_defs)

text \<open>
  Claim C1, amended. With a truthy \<^verbatim>\<open>accessToken\<close> cookie persisted, refreshUser
  always resolves with the loading flag cleared, however the request settles. If the
  request rejects (network error, error status, exception), both cookies are removed and
  an absent User stays absent. If the request resolves with a falsy status flag, the
  cookies and User keep their values.
\<close>

theorem refreshUser_failure_with_token:
  "truthy (Cookies_get ''accessToken'' s) \<Longrightarrow>
   fst (refreshUser out s) = Inr ()
   \<and> isLoading (snd (refreshUser out s)) = False
   \<and> fst (refreshUser (Rejects f) s) = Inr ()
   \<and> isLoading (snd (refreshUser (Rejects f) s)) = False
   \<and> cookies (snd (refreshUser (Rejects f) s)) ''accessToken'' = None
   \<and> cookies (snd (refreshUser (Rejects f) s)) ''refreshToken'' = None
   \<and> (user s = None \<longrightarrow> user (snd (refreshUser (Rejects f) s)) = None)
   \<and> fst (refreshUser (Resolves (ResponseData False d)) s) = Inr ()
   \<and> isLoading (snd (refreshUser (Resolves (ResponseData False d)) s)) = False
   \<and> cookies (snd (refreshUser (Resolves (ResponseData False d)) s)) = cookies s
   \<and> user (snd (refreshUser (Resolves (ResponseData False d)) s)) = user s"
  by (simp add: refreshUser_def Let_def prim_defs split: api_outcome.splits response_data.splits)

theorem refreshUser_failure_with_token_witness:
  "truthy (Cookies_get ''accessToken'' session_with_token)
   \<and> fst (refreshUser (Resolves (ResponseData True (Some alice))) session_with_token) = Inr ()
   \<and> isLoading (snd (refreshUser (Resolves (ResponseData True (Some alice))) session_with_token)) = False
   \<and> fst (refreshUser (Rejects NetworkError) session_with_token) = Inr ()
   \<and> isLoading (snd (refreshUser (Rejects NetworkError) session_with_token)) = False
   \<and> cookies (snd (refreshUser (Rejects NetworkError) session_with_token)) ''accessToken'' = None
   \<and> cookies (snd (refreshUser (Rejects NetworkError) session_with_token)) ''refreshToken'' = None
   \<and> user (snd (refreshUser (Rejects NetworkError) session_with_token)) = None
   \<and> fst (refreshUser (Resolves (ResponseData False None)) session_with_token) = Inr ()
   \<and> isLoading (snd (refreshUser (Resolves (ResponseData False None)) session_with_token)) = False
   \<and> cookies (snd (refreshUser (Resolves (ResponseData False None)) session_with_token)) = stored_tokens
   \<and> user (snd (refreshUser (Resolves (ResponseData False None)) session_with_token)) = None"
proof -
  have h: "truthy (Cookies_get ''accessToken'' session_with_token)"
    by (simp add: Cookies_get_def session_with_token_def AuthProvider_initial_def stored_tokens_def)
  have u: "user session_with_token = None" "cookies session_with_token = stored_tokens"
    by (simp_all add: session_with_token_def AuthProvider_initial_def)
  show ?thesis
    using h u
      refreshUser_failure_with_token
        [OF h, where out = "Resolves (ResponseData True (Some alice))"
           and f = NetworkError and d = None]
    by simp
qed

section \<open>The session invariant\<close>


text \<open>A rejected refresh after a login breaks it as well: the cookies go, User stays.\<close>

lemma rejected_refresh_breaks_token_invariant:
  "cookies (run_ops [Login ''a@b.com'' ''pw'' (Resolves (ResponseData True (Some (LoginData ''tok'' alice)))),
                     RefreshUser (Rejects NetworkError)]
              (AuthProvider_initial Map.empty)) ''accessToken'' = None
   \<and> user (run_ops [Login ''a@b.com'' ''pw'' (Resolves (ResponseData True (Some (LoginData ''tok'' alice)))),
                     RefreshUser (Rejects NetworkError)]
              (AuthProvider_initial Map.empty)) = Some alice"
  by (simp add: run_ops_def refreshUser_def login_def prim_defs AuthProvider_initial_def)






section \<open>Elementary facts about the page primitives\<close>

lemma page_requests_append: "page_requests (xs @ ys) = page_requests xs @ page_requests ys"
  by (induction xs rule: page_requests.induct) simp_all

lemmas page_defs =
  setAiAnalysis_def setIsAnalyzing_def setValue_status_def toast_def navigate_def
  page_send_def page_console_error_def watchedBody_def

lemmas analyze_defs =
  click_AI_Analysis_def AI_Analysis_disabled_def analyzeContent_def
  analyzeContent_settle_def analyzeContent_send_def

section \<open>AI analysis\<close>

lemma click_AI_Analysis_noop:
  "(case watchedBody s of None \<Rightarrow> True | Some b \<Rightarrow> length b < 10) \<or> isAnalyzing s \<Longrightarrow>
   click_AI_Analysis out s = s"
  by (auto simp add: click_AI_Analysis_def AI_Analysis_disabled_def analyzeContent_def
        split: option.splits)

lemma click_AI_Analysis_runs:
  "watchedBody s = Some b \<Longrightarrow> 10 \<le> length b \<Longrightarrow> \<not> isAnalyzing s \<Longrightarrow>
   page_requests (page_effects (click_AI_Analysis out s))
     = page_requests (page_effects s) @ [Request POST ''/content/analyze'' (Json [(''body'', b)])]
   \<and> isAnalyzing (click_AI_Analysis out s) = False
   \<and> (case out of
        Resolves (ResponseData st d) \<Rightarrow>
          aiAnalysis (click_AI_Analysis out s) = (if st then d else aiAnalysis s)
      | Rejects e \<Rightarrow> aiAnalysis (click_AI_Analysis out s) = aiAnalysis s)"
  by (auto simp add: analyze_defs setAiAnalysis_def setIsAnalyzing_def toast_def page_send_def
        page_console_error_def page_requests_append
        split: api_outcome.splits response_data.splits)

text \<open>
  The in-flight guard is the control's \<^verbatim>\<open>disabled\<close> attribute alone: the function,
  called while the flag is up, sends another request.
\<close>

lemma analyzeContent_ignores_isAnalyzing:
  "isAnalyzing s \<Longrightarrow> watchedBody s = Some b \<Longrightarrow> 10 \<le> length b \<Longrightarrow>
   page_requests (page_effects (snd (analyzeContent out s)))
     = page_requests (page_effects s) @ [Request POST ''/content/analyze'' (Json [(''body'', b)])]"
  by (auto simp add: analyze_defs setAiAnalysis_def setIsAnalyzing_def toast_def page_send_def
        page_console_error_def page_requests_append
        split: api_outcome.splits response_data.splits)

text \<open>
  Claim C3 fails as stated: with a body of 13 characters and nothing in flight, a request
  that rejects is sent once and the analysis panel stays empty.
\<close>

theorem rejected_analysis_leaves_panel_empty:
  "watchedBody (page_with_body ''Hello, world!'') = Some ''Hello, world!''
   \<and> length ''Hello, world!'' = 13
   \<and> isAnalyzing (page_with_body ''Hello, world!'') = False
   \<and> page_requests (page_effects
         (click_AI_Analysis (Rejects NetworkError) (page_with_body ''Hello, world!'')))
       = [Request POST ''/content/analyze'' (Json [(''body'', ''Hello, world!'')])]
   \<and> aiAnalysis (click_AI_Analysis (Rejects NetworkError) (page_with_body ''Hello, world!'')) = None"
  by (simp add: analyze_defs page_defs page_with_body_def CreateContent_initial_def)

text \<open>
  Claim C3, amended. A click on the AI Analysis control changes nothing (no request, no
  state change) when the body is undefined or shorter than 10 characters or an analysis
  is in flight. With a body of at least 10 characters and none in flight it sends exactly
  one \<^verbatim>\<open>/content/analyze\<close> request carrying the body and lowers the in-flight flag
  again; the panel is set from the response's data field when the request resolves with a
  truthy status flag, and keeps its content when the flag is falsy or the request rejects.
\<close>

theorem click_AI_Analysis_guarded:
  "((case watchedBody s of None \<Rightarrow> True | Some b \<Rightarrow> length b < 10) \<or> isAnalyzing s
      \<longrightarrow> click_AI_Analysis out s = s)
   \<and> (watchedBody s = Some b \<and> 10 \<le> length b \<and> \<not> isAnalyzing s \<longrightarrow>
        page_requests (page_effects (click_AI_Analysis out s))
          = page_requests (page_effects s) @ [Request POST ''/content/analyze'' (Json [(''body'', b)])]
        \<and> isAnalyzing (click_AI_Analysis out s) = False
        \<and> (case out of
             Resolves (ResponseData st d) \<Rightarrow>
               aiAnalysis (click_AI_Analysis out s) = (if st then d else aiAnalysis s)
           | Rejects e \<Rightarrow> aiAnalysis (click_AI_Analysis out s) = aiAnalysis s))"
  using click_AI_Analysis_noop [of s out] click_AI_Analysis_runs [of s b out] by blast

text \<open>
  A body of 5 characters, a click while a request is in flight, and a body of 13
  characters answered with insights.
\<close>

theorem click_AI_Analysis_guarded_witness:
  "watchedBody (page_with_body ''Hello'') = Some ''Hello''
   \<and> click_AI_Analysis (Resolves (ResponseData True (Some insights))) (page_with_body ''Hello'')
       = page_with_body ''Hello''
   \<and> isAnalyzing (analyzeContent_send ''Hello, world!'' (page_with_body ''Hello, world!''))
   \<and> click_AI_Analysis (Resolves (ResponseData True (Some insights)))
        (analyzeContent_send ''Hello, world!'' (page_with_body ''Hello, world!''))
       = analyzeContent_send ''Hello, world!'' (page_with_body ''Hello, world!'')
   \<and> watchedBody (page_with_body ''Hello, world!'') = Some ''Hello, world!''
   \<and> \<not> isAnalyzing (page_with_body ''Hello, world!'')
   \<and> page_requests (page_effects
        (click_AI_Analysis (Resolves (ResponseData True (Some insights))) (page_with_body ''Hello, world!'')))
       = [Request POST ''/content/analyze'' (Json [(''body'', ''Hello, world!'')])]
   \<and> aiAnalysis (click_AI_Analysis (Resolves (ResponseData True (Some insights))) (page_with_body ''Hello, world!''))
       = Some insights"
proof -
  let ?ok = "Resolves (ResponseData True (Some insights))"
  have short: "watchedBody (page_with_body ''Hello'') = Some ''Hello''"
    by (simp add: watchedBody_def page_with_body_def CreateContent_initial_def)
  have flying: "isAnalyzing (analyzeContent_send ''Hello, world!'' (page_with_body ''Hello, world!''))"
    by (simp add: analyzeContent_send_def page_send_def setIsAnalyzing_def)
  have long: "watchedBody (page_with_body ''Hello, world!'') = Some ''Hello, world!''"
    by (simp add: watchedBody_def page_with_body_def CreateContent_initial_def)
  have idle: "\<not> isAnalyzing (page_with_body ''Hello, world!'')"
    and empty: "page_effects (page_with_body ''Hello, world!'') = []"
    by (simp_all add: page_with_body_def CreateContent_initial_def)
  show ?thesis
    using short flying long idle empty
      click_AI_Analysis_guarded [where s = "page_with_body ''Hello''" and out = ?ok]
      click_AI_Analysis_guarded
        [where s = "analyzeContent_send ''Hello, world!'' (page_with_body ''Hello, world!'')"
           and out = ?ok]
      click_AI_Analysis_guarded
        [where s = "page_with_body ''Hello, world!''" and b = "''Hello, world!''" and out = ?ok]
    by simp
qed

section \<open>Primary submission\<close>

text \<open>The payload in full, for a draft with two tags and an image.\<close>

lemma mutationFn_formData_example:
  "mutationFn_formData \<lparr>title = Some ''T'', body = Some ''B'', tags = Some [''x'', ''y''],
       featuredImage = Some (File ''a.png''), status = published\<rparr>
   = [(''title'', Text ''T''), (''body'', Text ''B''), (''status'', Text ''published''),
      (''tags[0]'', Text ''x''), (''tags[1]'', Text ''y''), (''featuredImage'', Blob (File ''a.png''))]"
  by (simp add: mutationFn_formData_def tag_entries_def enumerate_eq_zip string_of_nat.simps upt_rec)

text \<open>No tag entry is named \<^verbatim>\<open>status\<close>, so the payload has exactly one status field.\<close>

lemma tag_entries_no_status: "FormData_getAll ''status'' (tag_entries ts) = []"
  by (auto simp add: FormData_getAll_def tag_entries_def filter_empty_conv)

lemma formData_status_field:
  "FormData_getAll ''status'' (mutationFn_formData d) = [Text (status_string (status d))]"
  using tag_entries_no_status
  by (simp add: mutationFn_formData_def FormData_getAll_def split: option.splits)

text \<open>
  Claim C4. When a submit button is enabled and the form values pass validation, a click
  on Publish first sets the status value to \<^verbatim>\<open>published\<close> and then submits: exactly one
  multipart \<^verbatim>\<open>/content\<close> request is sent and its only status field is
  \<^verbatim>\<open>published\<close>. A click on Save as Draft does the same with \<^verbatim>\<open>draft\<close>.
\<close>

theorem submit_button_decides_status:
  "\<not> isSubmitting s \<Longrightarrow>
   (resolver ((form_values s)\<lparr>status := published\<rparr>) \<longrightarrow>
      page_requests (page_effects (click_Publish resolver out s))
        = page_requests (page_effects s)
          @ [Request POST ''/content''
               (Multipart (mutationFn_formData ((form_values s)\<lparr>status := published\<rparr>)))]
      \<and> FormData_getAll ''status'' (mutationFn_formData ((form_values s)\<lparr>status := published\<rparr>))
          = [Text ''published'']
      \<and> (\<exists>later. page_effects (click_Publish resolver out s)
           = page_effects s @ SetValueStatus published
               # PageSent (Request POST ''/content''
                    (Multipart (mutationFn_formData ((form_values s)\<lparr>status := published\<rparr>))))
               # later))
   \<and> (resolver ((form_values s)\<lparr>status := draft\<rparr>) \<longrightarrow>
      page_requests (page_effects (click_Save_as_Draft resolver out s))
        = page_requests (page_effects s)
          @ [Request POST ''/content''
               (Multipart (mutationFn_formData ((form_values s)\<lparr>status := draft\<rparr>)))]
      \<and> FormData_getAll ''status'' (mutationFn_formData ((form_values s)\<lparr>status := draft\<rparr>))
          = [Text ''draft'']
      \<and> (\<exists>later. page_effects (click_Save_as_Draft resolver out s)
           = page_effects s @ SetValueStatus draft
               # PageSent (Request POST ''/content''
                    (Multipart (mutationFn_formData ((form_values s)\<lparr>status := draft\<rparr>))))
               # later))"
  by (cases out)
     (simp_all add: click_Publish_def click_Save_as_Draft_def handleSubmit_def onSubmit_def
        createContentMutation_mutate_def Let_def setValue_status_def toast_def navigate_def
        page_send_def page_requests_append formData_status_field)

theorem submit_button_decides_status_witness:
  "\<not> isSubmitting (page_with_body ''Hello, world!'')
   \<and> has_title_and_body ((form_values (page_with_body ''Hello, world!''))\<lparr>status := published\<rparr>)
   \<and> has_title_and_body ((form_values (page_with_body ''Hello, world!''))\<lparr>status := draft\<rparr>)
   \<and> page_requests (page_effects
        (click_Publish has_title_and_body (Resolves (ResponseData True None)) (page_with_body ''Hello, world!'')))
       = [Request POST ''/content''
            (Multipart [(''title'', Text ''Title''), (''body'', Text ''Hello, world!''),
                        (''status'', Text ''published'')])]
   \<and> page_requests (page_effects
        (click_Save_as_Draft has_title_and_body (Resolves (ResponseData True None)) (page_with_body ''Hello, world!'')))
       = [Request POST ''/content''
            (Multipart [(''title'', Text ''Title''), (''body'', Text ''Hello, world!''),
                        (''status'', Text ''draft'')])]"
proof -
  let ?s = "page_with_body ''Hello, world!''"
  have en: "\<not> isSubmitting ?s" and empty: "page_effects ?s = []"
    by (simp_all add: page_with_body_def CreateContent_initial_def)
  have fv: "form_values ?s = \<lparr>title = Some ''Title'', body = Some ''Hello, world!'', tags = None,
              featuredImage = None, status = draft\<rparr>"
    by (simp add: page_with_body_def CreateContent_initial_def)
  have okp: "has_title_and_body ((form_values ?s)\<lparr>status := published\<rparr>)"
    and okd: "has_title_and_body ((form_values ?s)\<lparr>status := draft\<rparr>)"
    by (simp_all add: fv has_title_and_body_def)
  have fdp: "mutationFn_formData ((form_values ?s)\<lparr>status := published\<rparr>)
      = [(''title'', Text ''Title''), (''body'', Text ''Hello, world!''), (''status'', Text ''published'')]"
    and fdd: "mutationFn_formData ((form_values ?s)\<lparr>status := draft\<rparr>)
      = [(''title'', Text ''Title''), (''body'', Text ''Hello, world!''), (''status'', Text ''draft'')]"
    by (simp_all add: fv mutationFn_formData_def)
  show ?thesis
    using en okp okd empty fdp fdd
      submit_button_decides_status [OF en, of has_title_and_body "Resolves (ResponseData True None)"]
    by simp
qed

end
